theory Spec2Isabelle
  imports Main "HOL-Library.Word"
begin

unbundle bit_operations_syntax

section \<open>ChibiOS/RT debug header: os/rt/include/chdebug.h\<close>

text \<open>
  The header consists of preprocessor constants, two structure types and a set of
  macros whose expansion depends on the build-time settings of \<^verbatim>\<open>chconf.h\<close>.
  The embedding follows that structure: the settings are a record, every conditional
  \<^verbatim>\<open>#if\<close> is an \<open>if\<close> over that record, the global \<^verbatim>\<open>ch\<close> is passed
  explicitly, and a call of \<^verbatim>\<open>chSysHalt\<close> is the \<open>Inl\<close> outcome of an operation.
  The symbol \<^verbatim>\<open>__DOXYGEN__\<close> is defined by the documentation generator only, never
  by a compiler run, so \<^verbatim>\<open>defined(__DOXYGEN__)\<close> is false throughout.
\<close>

subsection \<open>Module constants\<close>

text \<open>Trace record types (lines 39-42). The literals are \<^verbatim>\<open>unsigned\<close>.\<close>

definition CH_TRACE_TYPE_UNUSED :: "32 word" where
  "CH_TRACE_TYPE_UNUSED = 0"

definition CH_TRACE_TYPE_SWITCH :: "32 word" where
  "CH_TRACE_TYPE_SWITCH = 1"

definition CH_TRACE_TYPE_ISR_ENTER :: "32 word" where
  "CH_TRACE_TYPE_ISR_ENTER = 2"

definition CH_TRACE_TYPE_ISR_LEAVE :: "32 word" where
  "CH_TRACE_TYPE_ISR_LEAVE = 3"

text \<open>
  Events to trace (lines 49-53). The masks are only used inside \<^verbatim>\<open>#if\<close>, where
  unsigned operands are evaluated in the widest unsigned type.
\<close>

definition CH_DBG_TRACE_MASK_NONE :: "64 word" where
  "CH_DBG_TRACE_MASK_NONE = 0"

definition CH_DBG_TRACE_MASK_SWITCH :: "64 word" where
  "CH_DBG_TRACE_MASK_SWITCH = 1"

definition CH_DBG_TRACE_MASK_ISR :: "64 word" where
  "CH_DBG_TRACE_MASK_ISR = 2"

definition CH_DBG_TRACE_MASK_ALL :: "64 word" where
  "CH_DBG_TRACE_MASK_ALL = (CH_DBG_TRACE_MASK_SWITCH OR CH_DBG_TRACE_MASK_ISR)"

subsection \<open>Pre-compile time settings\<close>

text \<open>
  What the integrator's \<^verbatim>\<open>chconf.h\<close> provides. A setting the header guards with
  \<^verbatim>\<open>#if !defined(...)\<close> is optional (\<open>None\<close>: not defined by the integrator); the
  three feature switches are set to \<^verbatim>\<open>TRUE\<close> or \<^verbatim>\<open>FALSE\<close>.
\<close>

record chconf =
  conf_CH_DBG_TRACE_MASK :: "64 word option"
  conf_CH_DBG_TRACE_BUFFER_SIZE :: "nat option"
  CH_DBG_SYSTEM_STATE_CHECK :: bool
  CH_DBG_ENABLE_CHECKS :: bool
  CH_DBG_ENABLE_ASSERTS :: bool

text \<open>Lines 67-69: the trace mask after the header's default.\<close>

definition CH_DBG_TRACE_MASK :: "chconf \<Rightarrow> 64 word" where
  "CH_DBG_TRACE_MASK cfg =
     (case conf_CH_DBG_TRACE_MASK cfg of
        None \<Rightarrow> CH_DBG_TRACE_MASK_ALL
      | Some m \<Rightarrow> m)"

text \<open>Lines 76-78: the trace buffer size after the header's default.\<close>

definition CH_DBG_TRACE_BUFFER_SIZE :: "chconf \<Rightarrow> nat" where
  "CH_DBG_TRACE_BUFFER_SIZE cfg =
     (case conf_CH_DBG_TRACE_BUFFER_SIZE cfg of
        None \<Rightarrow> 128
      | Some n \<Rightarrow> n)"

subsection \<open>Module data structures and types\<close>

text \<open>
  Types the header uses and other headers declare: \<^verbatim>\<open>systime_t\<close>, \<^verbatim>\<open>cnt_t\<close> and
  the pointer types are taken at the width of the 32-bit ports.
\<close>

type_synonym systime_t = "32 word"
type_synonym cnt_t = "32 word"
type_synonym pointer = "32 word"

text \<open>
  The union \<^verbatim>\<open>u\<close> of a trace record (lines 130-153): a context switch carries the
  switched-in thread and the object the switched-out thread sleeps on, an ISR event
  carries the ISR's name.
\<close>

datatype trace_u =
  sw (ntp: pointer) (wtobjp: pointer)
| isr (name: string)

text \<open>
  The trace buffer record (lines 111-154). A bit-field \<^verbatim>\<open>uint32_t f:n\<close> holds an
  \<open>n\<close>-bit unsigned value.
\<close>

record ch_trace_event_t =
  type :: "3 word"
  state :: "5 word"
  rtstamp :: "24 word"
  time :: systime_t
  u :: trace_u

text \<open>
  The trace buffer header (lines 159-172). \<^verbatim>\<open>tb_ptr\<close> points into \<^verbatim>\<open>tb_buffer\<close>;
  it is kept as the index of the element it points to.
\<close>

record ch_trace_buffer_t =
  tb_size :: "32 word"
  tb_ptr :: nat
  tb_buffer :: "ch_trace_event_t list"

text \<open>
  The array \<^verbatim>\<open>tb_buffer\<close> is declared with \<^verbatim>\<open>CH_DBG_TRACE_BUFFER_SIZE\<close> entries
  (line 171): the values of the structure type under a configuration.
\<close>

definition ch_trace_buffer_t_layout :: "chconf \<Rightarrow> ch_trace_buffer_t \<Rightarrow> bool" where
  "ch_trace_buffer_t_layout cfg tb =
     (length (tb_buffer tb) = CH_DBG_TRACE_BUFFER_SIZE cfg)"

text \<open>
  Storing an unsigned value into the 3-bit field \<^verbatim>\<open>type\<close> reduces it modulo \<open>2^3\<close>;
  reading the field gives its value back as an unsigned integer.
\<close>

definition store_type :: "32 word \<Rightarrow> ch_trace_event_t \<Rightarrow> ch_trace_event_t" where
  "store_type k e = e\<lparr>type := ucast k\<rparr>"

definition load_type :: "ch_trace_event_t \<Rightarrow> 32 word" where
  "load_type e = ucast (type e)"

text \<open>
  The system instance \<^verbatim>\<open>ch\<close> as far as the header touches it: the macros of lines
  180-181 assign to \<^verbatim>\<open>ch.dbg.lock_cnt\<close>.
\<close>

record ch_system_debug_t =
  lock_cnt :: cnt_t

record ch_system_t =
  dbg :: ch_system_debug_t

text \<open>
  \<^verbatim>\<open>chSysHalt(reason)\<close> stops the system for good. An operation either requests
  the halt (\<open>Inl\<close>, with the reason string) or returns with the next state (\<open>Inr\<close>).
\<close>

datatype halt = chSysHalt string

type_synonym 's kernel_op = "'s \<Rightarrow> halt + 's"

text \<open>
  The functions the header only declares (lines 272-294); their bodies live in another
  translation unit and are parameters of the model.
\<close>

record chdebug_c =
  impl_dbg_check_disable :: "ch_system_t kernel_op"
  impl_dbg_check_suspend :: "ch_system_t kernel_op"
  impl_dbg_check_enable :: "ch_system_t kernel_op"
  impl_dbg_check_lock :: "ch_system_t kernel_op"
  impl_dbg_check_unlock :: "ch_system_t kernel_op"
  impl_dbg_check_lock_from_isr :: "ch_system_t kernel_op"
  impl_dbg_check_unlock_from_isr :: "ch_system_t kernel_op"
  impl_dbg_check_enter_isr :: "ch_system_t kernel_op"
  impl_dbg_check_leave_isr :: "ch_system_t kernel_op"
  impl_chDbgCheckClassI :: "ch_system_t kernel_op"
  impl_chDbgCheckClassS :: "ch_system_t kernel_op"
  impl_dbg_trace_switch :: "pointer \<Rightarrow> ch_system_t kernel_op"
  impl_dbg_trace_isr_enter :: "string \<Rightarrow> ch_system_t kernel_op"
  impl_dbg_trace_isr_leave :: "string \<Rightarrow> ch_system_t kernel_op"

subsection \<open>Module macros: the system state checker\<close>

text \<open>
  Lines 179-182 and 187-188. With the state checker the macros are assignment
  expressions; without it they are empty.
\<close>

definition dbg_enter_lock :: "chconf \<Rightarrow> ch_system_t \<Rightarrow> ch_system_t" where
  "dbg_enter_lock cfg ch =
     (if CH_DBG_SYSTEM_STATE_CHECK cfg
      then ch\<lparr>dbg := (dbg ch)\<lparr>lock_cnt := 1\<rparr>\<rparr>
      else ch)"

definition dbg_leave_lock :: "chconf \<Rightarrow> ch_system_t \<Rightarrow> ch_system_t" where
  "dbg_leave_lock cfg ch =
     (if CH_DBG_SYSTEM_STATE_CHECK cfg
      then ch\<lparr>dbg := (dbg ch)\<lparr>lock_cnt := 0\<rparr>\<rparr>
      else ch)"

text \<open>
  Lines 189-199 and 273-283: each name is an empty macro without the state checker and
  the external function with it.
\<close>

definition dbg_check_disable :: "chconf \<Rightarrow> chdebug_c \<Rightarrow> ch_system_t kernel_op" where
  "dbg_check_disable cfg impl ch =
     (if CH_DBG_SYSTEM_STATE_CHECK cfg then impl_dbg_check_disable impl ch else Inr ch)"

definition dbg_check_suspend :: "chconf \<Rightarrow> chdebug_c \<Rightarrow> ch_system_t kernel_op" where
  "dbg_check_suspend cfg impl ch =
     (if CH_DBG_SYSTEM_STATE_CHECK cfg then impl_dbg_check_suspend impl ch else Inr ch)"

definition dbg_check_enable :: "chconf \<Rightarrow> chdebug_c \<Rightarrow> ch_system_t kernel_op" where
  "dbg_check_enable cfg impl ch =
     (if CH_DBG_SYSTEM_STATE_CHECK cfg then impl_dbg_check_enable impl ch else Inr ch)"

definition dbg_check_lock :: "chconf \<Rightarrow> chdebug_c \<Rightarrow> ch_system_t kernel_op" where
  "dbg_check_lock cfg impl ch =
     (if CH_DBG_SYSTEM_STATE_CHECK cfg then impl_dbg_check_lock impl ch else Inr ch)"

definition dbg_check_unlock :: "chconf \<Rightarrow> chdebug_c \<Rightarrow> ch_system_t kernel_op" where
  "dbg_check_unlock cfg impl ch =
     (if CH_DBG_SYSTEM_STATE_CHECK cfg then impl_dbg_check_unlock impl ch else Inr ch)"

definition dbg_check_lock_from_isr :: "chconf \<Rightarrow> chdebug_c \<Rightarrow> ch_system_t kernel_op" where
  "dbg_check_lock_from_isr cfg impl ch =
     (if CH_DBG_SYSTEM_STATE_CHECK cfg then impl_dbg_check_lock_from_isr impl ch else Inr ch)"

definition dbg_check_unlock_from_isr :: "chconf \<Rightarrow> chdebug_c \<Rightarrow> ch_system_t kernel_op" where
  "dbg_check_unlock_from_isr cfg impl ch =
     (if CH_DBG_SYSTEM_STATE_CHECK cfg then impl_dbg_check_unlock_from_isr impl ch else Inr ch)"

definition dbg_check_enter_isr :: "chconf \<Rightarrow> chdebug_c \<Rightarrow> ch_system_t kernel_op" where
  "dbg_check_enter_isr cfg impl ch =
     (if CH_DBG_SYSTEM_STATE_CHECK cfg then impl_dbg_check_enter_isr impl ch else Inr ch)"

definition dbg_check_leave_isr :: "chconf \<Rightarrow> chdebug_c \<Rightarrow> ch_system_t kernel_op" where
  "dbg_check_leave_isr cfg impl ch =
     (if CH_DBG_SYSTEM_STATE_CHECK cfg then impl_dbg_check_leave_isr impl ch else Inr ch)"

definition chDbgCheckClassI :: "chconf \<Rightarrow> chdebug_c \<Rightarrow> ch_system_t kernel_op" where
  "chDbgCheckClassI cfg impl ch =
     (if CH_DBG_SYSTEM_STATE_CHECK cfg then impl_chDbgCheckClassI impl ch else Inr ch)"

definition chDbgCheckClassS :: "chconf \<Rightarrow> chdebug_c \<Rightarrow> ch_system_t kernel_op" where
  "chDbgCheckClassS cfg impl ch =
     (if CH_DBG_SYSTEM_STATE_CHECK cfg then impl_chDbgCheckClassS impl ch else Inr ch)"

subsection \<open>Module macros: the trace recorder\<close>

text \<open>
  Lines 204-210 and 285-294: a recorder whose mask bit is clear is an empty macro, one
  whose mask bit is set is the external function. A set bit makes the mask differ from
  \<^verbatim>\<open>CH_DBG_TRACE_MASK_NONE\<close>, so the outer condition of line 285 holds as well.
\<close>

definition dbg_trace_switch :: "chconf \<Rightarrow> chdebug_c \<Rightarrow> pointer \<Rightarrow> ch_system_t kernel_op" where
  "dbg_trace_switch cfg impl otp ch =
     (if (CH_DBG_TRACE_MASK cfg AND CH_DBG_TRACE_MASK_SWITCH) = 0
      then Inr ch
      else impl_dbg_trace_switch impl otp ch)"

definition dbg_trace_isr_enter :: "chconf \<Rightarrow> chdebug_c \<Rightarrow> string \<Rightarrow> ch_system_t kernel_op" where
  "dbg_trace_isr_enter cfg impl nm ch =
     (if (CH_DBG_TRACE_MASK cfg AND CH_DBG_TRACE_MASK_ISR) = 0
      then Inr ch
      else impl_dbg_trace_isr_enter impl nm ch)"

definition dbg_trace_isr_leave :: "chconf \<Rightarrow> chdebug_c \<Rightarrow> string \<Rightarrow> ch_system_t kernel_op" where
  "dbg_trace_isr_leave cfg impl nm ch =
     (if (CH_DBG_TRACE_MASK cfg AND CH_DBG_TRACE_MASK_ISR) = 0
      then Inr ch
      else impl_dbg_trace_isr_leave impl nm ch)"

subsection \<open>Macro functions\<close>

text \<open>
  \<^verbatim>\<open>chDbgCheck(c)\<close> (lines 227-235) and \<^verbatim>\<open>chDbgAssert(c, r)\<close> (lines 253-261).
  The arguments are expressions of the calling code: evaluating one gives a value and
  may change the caller's state. \<open>func\<close> is \<^verbatim>\<open>__func__\<close>, the name of the function
  that contains the macro call. The remark \<open>r\<close> does not occur in the expansion.
  Both definitions stand under \<^verbatim>\<open>#if !defined(...)\<close>: an integrator who defines a
  macro of that name replaces the header's; what follows is the header's own macro.
\<close>

type_synonym ('s, 'a) expr = "'s \<Rightarrow> 'a \<times> 's"

definition chDbgCheck :: "chconf \<Rightarrow> string \<Rightarrow> ('s, bool) expr \<Rightarrow> 's kernel_op" where
  "chDbgCheck cfg func c s =
     (if CH_DBG_ENABLE_CHECKS cfg then
        (case c s of
           (v, s') \<Rightarrow> if \<not> v then Inl (chSysHalt func) else Inr s')
      else Inr s)"

definition chDbgAssert ::
    "chconf \<Rightarrow> string \<Rightarrow> ('s, bool) expr \<Rightarrow> ('s, 'r) expr \<Rightarrow> 's kernel_op" where
  "chDbgAssert cfg func c r s =
     (if CH_DBG_ENABLE_ASSERTS cfg then
        (case c s of
           (v, s') \<Rightarrow> if \<not> v then Inl (chSysHalt func) else Inr s')
      else Inr s)"

subsection \<open>The recorder of the trace buffer\<close>

text \<open>
  The recorder that fills a trace record and inserts it into the ring buffer (the
  bodies of \<^verbatim>\<open>_dbg_trace_switch\<close>, \<^verbatim>\<open>_dbg_trace_isr_enter\<close> and
  \<^verbatim>\<open>_dbg_trace_isr_leave\<close>) is not among the source files; the header only declares
  it. The three definitions of this subsection follow the spec instead.
\<close>

text \<open>
  Modelled from the spec: the time sources the recorder samples, which the port layer
  provides and no source file shows. Section 6 lists the hardware fine-grained timestamp
  source as optional; section 3 has a coarse timestamp (the system tick counter) and a
  fine one (the hardware cycle counter). \<open>PORT_SUPPORTS_RT\<close> says whether the platform
  has the cycle counter (the name is the one of the note at lines 122-123).
\<close>

record port_t =
  PORT_SUPPORTS_RT :: bool
  rt_counter :: "32 word"
  system_time :: systime_t

text \<open>
  Modelled from the spec: building a record, a step of the recorder whose code is
  missing. Section 4.1: it samples the coarse and, if available, the fine timestamp
  source and builds a record; section 3: the fine timestamp is the hardware cycle
  counter sample, 24-bit range, and zero when the platform has no such counter. The
  kind, the state and the counter sample are stored into bit-fields and so reduced to
  the field's width.
\<close>

definition make_event :: "port_t \<Rightarrow> 32 word \<Rightarrow> 32 word \<Rightarrow> trace_u \<Rightarrow> ch_trace_event_t" where
  "make_event p kind st payload =
     \<lparr>type = ucast kind,
      state = ucast st,
      rtstamp = (if PORT_SUPPORTS_RT p then ucast (rt_counter p) else 0),
      time = system_time p,
      u = payload\<rparr>"

text \<open>
  Modelled from the spec: inserting the record, the other step of the missing
  recorder. Section 4.1: it writes the record at the current cursor position and
  advances the cursor; when the cursor reaches the capacity it wraps to zero. A cursor
  outside the array would be a write out of bounds in C; the list update leaves the
  buffer as it is there.
\<close>

definition record_event ::
    "port_t \<Rightarrow> 32 word \<Rightarrow> 32 word \<Rightarrow> trace_u \<Rightarrow> ch_trace_buffer_t \<Rightarrow> ch_trace_buffer_t" where
  "record_event p kind st payload tb =
     tb\<lparr>tb_buffer := (tb_buffer tb)[tb_ptr tb := make_event p kind st payload],
        tb_ptr := (if unat (tb_size tb) \<le> Suc (tb_ptr tb) then 0 else Suc (tb_ptr tb))\<rparr>"

subsection \<open>Sample configurations and states\<close>

text \<open>
  Concrete inputs on which the theorems below are instantiated: a configuration that
  leaves the optional settings undefined and switches every feature on, one that
  switches everything off, an unlocked and a locked system, external functions that
  are observable (each one halts with a reason of its own), a trace buffer whose slots
  are all unused, and ports with and without a cycle counter.
\<close>

definition chconf_default :: chconf where
  "chconf_default =
     \<lparr>conf_CH_DBG_TRACE_MASK = None,
      conf_CH_DBG_TRACE_BUFFER_SIZE = None,
      CH_DBG_SYSTEM_STATE_CHECK = True,
      CH_DBG_ENABLE_CHECKS = True,
      CH_DBG_ENABLE_ASSERTS = True\<rparr>"

definition chconf_release :: chconf where
  "chconf_release =
     \<lparr>conf_CH_DBG_TRACE_MASK = Some CH_DBG_TRACE_MASK_NONE,
      conf_CH_DBG_TRACE_BUFFER_SIZE = Some 64,
      CH_DBG_SYSTEM_STATE_CHECK = False,
      CH_DBG_ENABLE_CHECKS = False,
      CH_DBG_ENABLE_ASSERTS = False\<rparr>"

definition ch_unlocked :: ch_system_t where
  "ch_unlocked = \<lparr>dbg = \<lparr>lock_cnt = 0\<rparr>\<rparr>"

definition ch_locked :: ch_system_t where
  "ch_locked = \<lparr>dbg = \<lparr>lock_cnt = 1\<rparr>\<rparr>"

definition chdebug_c_halting :: chdebug_c where
  "chdebug_c_halting =
     \<lparr>impl_dbg_check_disable = (\<lambda>ch. Inl (chSysHalt ''SV#1'')),
      impl_dbg_check_suspend = (\<lambda>ch. Inl (chSysHalt ''SV#2'')),
      impl_dbg_check_enable = (\<lambda>ch. Inl (chSysHalt ''SV#3'')),
      impl_dbg_check_lock = (\<lambda>ch. Inl (chSysHalt ''SV#4'')),
      impl_dbg_check_unlock = (\<lambda>ch. Inl (chSysHalt ''SV#5'')),
      impl_dbg_check_lock_from_isr = (\<lambda>ch. Inl (chSysHalt ''SV#6'')),
      impl_dbg_check_unlock_from_isr = (\<lambda>ch. Inl (chSysHalt ''SV#7'')),
      impl_dbg_check_enter_isr = (\<lambda>ch. Inl (chSysHalt ''SV#8'')),
      impl_dbg_check_leave_isr = (\<lambda>ch. Inl (chSysHalt ''SV#9'')),
      impl_chDbgCheckClassI = (\<lambda>ch. Inl (chSysHalt ''SV#10'')),
      impl_chDbgCheckClassS = (\<lambda>ch. Inl (chSysHalt ''SV#11'')),
      impl_dbg_trace_switch = (\<lambda>otp ch. Inl (chSysHalt ''switch'')),
      impl_dbg_trace_isr_enter = (\<lambda>nm ch. Inl (chSysHalt (''enter '' @ nm))),
      impl_dbg_trace_isr_leave = (\<lambda>nm ch. Inl (chSysHalt (''leave '' @ nm)))\<rparr>"

definition trace_event_unused :: ch_trace_event_t where
  "trace_event_unused =
     \<lparr>type = ucast CH_TRACE_TYPE_UNUSED, state = 0, rtstamp = 0, time = 0, u = isr []\<rparr>"

definition trace_buffer_unused :: "chconf \<Rightarrow> ch_trace_buffer_t" where
  "trace_buffer_unused cfg =
     \<lparr>tb_size = of_nat (CH_DBG_TRACE_BUFFER_SIZE cfg),
      tb_ptr = 0,
      tb_buffer = replicate (CH_DBG_TRACE_BUFFER_SIZE cfg) trace_event_unused\<rparr>"

definition port_without_rt :: port_t where
  "port_without_rt = \<lparr>PORT_SUPPORTS_RT = False, rt_counter = 0x12345678, system_time = 1000\<rparr>"

definition port_with_rt :: port_t where
  "port_with_rt = \<lparr>PORT_SUPPORTS_RT = True, rt_counter = 0x12345678, system_time = 1000\<rparr>"

section \<open>Properties\<close>

subsection \<open>Kernel-lock counter\<close>

lemma dbg_enter_lock_cnt:
  "lock_cnt (dbg (dbg_enter_lock cfg ch)) =
     (if CH_DBG_SYSTEM_STATE_CHECK cfg then 1 else lock_cnt (dbg ch))"
  by (simp add: dbg_enter_lock_def)

lemma dbg_leave_lock_cnt:
  "lock_cnt (dbg (dbg_leave_lock cfg ch)) =
     (if CH_DBG_SYSTEM_STATE_CHECK cfg then 0 else lock_cnt (dbg ch))"
  by (simp add: dbg_leave_lock_def)


text \<open>
  C1 (as stated): for every value of the kernel-lock counter, \<open>enter_lock\<close> increases
  it by exactly one and \<open>leave_lock\<close> decreases it by exactly one. The macros assign
  constants instead, so the statement fails on a counter that is already 1: after
  \<open>enter_lock\<close> it is still 1, not 2.
\<close>

theorem enter_lock_increment_counterexample:
  "\<not> (lock_cnt (dbg (dbg_enter_lock chconf_default ch_locked)) = lock_cnt (dbg ch_locked) + 1)"
  by (simp add: dbg_enter_lock_def chconf_default_def ch_locked_def)

text \<open>
  C1 (amended): with the state checker enabled, \<open>enter_lock\<close> sets the counter to
  exactly one and \<open>leave_lock\<close> sets it to exactly zero, whatever its value was; the
  counter is a flag. So \<open>enter_lock\<close> increases it by one exactly when it was zero and
  \<open>leave_lock\<close> decreases it by one exactly when it was one.
\<close>

theorem lock_cnt_is_flag:
  assumes "CH_DBG_SYSTEM_STATE_CHECK cfg"
  shows "lock_cnt (dbg (dbg_enter_lock cfg ch)) = 1
       \<and> lock_cnt (dbg (dbg_leave_lock cfg ch)) = 0
       \<and> ((lock_cnt (dbg (dbg_enter_lock cfg ch)) = lock_cnt (dbg ch) + 1) = (lock_cnt (dbg ch) = 0))
       \<and> ((lock_cnt (dbg (dbg_leave_lock cfg ch)) = lock_cnt (dbg ch) - 1) = (lock_cnt (dbg ch) = 1))"
proof -
  have e: "lock_cnt (dbg (dbg_enter_lock cfg ch)) = 1"
    using assms by (simp add: dbg_enter_lock_cnt)
  have l: "lock_cnt (dbg (dbg_leave_lock cfg ch)) = 0"
    using assms by (simp add: dbg_leave_lock_cnt)
  have up: "(1 = lock_cnt (dbg ch) + 1) = (lock_cnt (dbg ch) = 0)"
    by auto
  have down: "(0 = lock_cnt (dbg ch) - 1) = (lock_cnt (dbg ch) = 1)"
    by auto
  show ?thesis
    unfolding e l using up down by simp
qed

theorem lock_cnt_is_flag_witness:
  "CH_DBG_SYSTEM_STATE_CHECK chconf_default
   \<and> lock_cnt (dbg (dbg_enter_lock chconf_default ch_locked)) = 1
   \<and> lock_cnt (dbg (dbg_leave_lock chconf_default ch_unlocked)) = 0
   \<and> lock_cnt (dbg (dbg_enter_lock chconf_default ch_locked)) \<noteq> lock_cnt (dbg ch_locked) + 1
   \<and> lock_cnt (dbg (dbg_leave_lock chconf_default ch_unlocked)) \<noteq> lock_cnt (dbg ch_unlocked) - 1"
proof -
  have h: "CH_DBG_SYSTEM_STATE_CHECK chconf_default"
    by (simp add: chconf_default_def)
  show ?thesis
    using h lock_cnt_is_flag [OF h, of ch_locked] lock_cnt_is_flag [OF h, of ch_unlocked]
    by (simp add: ch_locked_def ch_unlocked_def)
qed

text \<open>
  C2 (as stated): for every initial value of the counter, \<open>enter_lock\<close> followed by
  \<open>leave_lock\<close> leaves it equal to its initial value. From the initial value 1 the pair
  ends at 0.
\<close>

theorem enter_leave_lock_counterexample:
  "\<not> (lock_cnt (dbg (dbg_leave_lock chconf_default (dbg_enter_lock chconf_default ch_locked)))
        = lock_cnt (dbg ch_locked))"
  by (simp add: dbg_enter_lock_def dbg_leave_lock_def chconf_default_def ch_locked_def)

text \<open>
  C2 (amended): from the initial value zero, \<open>enter_lock\<close> immediately followed by
  \<open>leave_lock\<close> leaves the counter equal to its initial value; with the state checker
  enabled the pair leaves the counter at zero from every initial value.
\<close>

theorem enter_leave_lock_cnt:
  "(lock_cnt (dbg ch) = 0 \<longrightarrow>
      lock_cnt (dbg (dbg_leave_lock cfg (dbg_enter_lock cfg ch))) = lock_cnt (dbg ch))
   \<and> (CH_DBG_SYSTEM_STATE_CHECK cfg \<longrightarrow>
      lock_cnt (dbg (dbg_leave_lock cfg (dbg_enter_lock cfg ch))) = 0)"
  by (simp add: dbg_leave_lock_cnt dbg_enter_lock_cnt)

theorem enter_leave_lock_cnt_witness:
  "lock_cnt (dbg ch_unlocked) = 0
   \<and> CH_DBG_SYSTEM_STATE_CHECK chconf_default
   \<and> lock_cnt (dbg (dbg_leave_lock chconf_default (dbg_enter_lock chconf_default ch_unlocked)))
       = lock_cnt (dbg ch_unlocked)
   \<and> lock_cnt (dbg (dbg_leave_lock chconf_default (dbg_enter_lock chconf_default ch_locked))) = 0"
  using enter_leave_lock_cnt [of ch_unlocked chconf_default]
        enter_leave_lock_cnt [of ch_locked chconf_default]
  by (simp add: ch_unlocked_def chconf_default_def)

subsection \<open>Trace mask\<close>

text \<open>
  C3 (as stated): each of the three recorder entry points can be disabled on its own,
  the other two staying enabled. \<^verbatim>\<open>_dbg_trace_isr_enter\<close> and
  \<^verbatim>\<open>_dbg_trace_isr_leave\<close> hang on the same mask bit, so no configuration makes the
  first an empty macro and keeps the second (and the switch recorder) a call of the
  external function.
\<close>

theorem trace_isr_enter_alone_counterexample:
  "\<not> (\<exists>cfg.
        (\<forall>impl nm ch. dbg_trace_isr_enter cfg impl nm ch = Inr ch)
        \<and> (\<forall>impl nm ch. dbg_trace_isr_leave cfg impl nm ch = impl_dbg_trace_isr_leave impl nm ch)
        \<and> (\<forall>impl otp ch. dbg_trace_switch cfg impl otp ch = impl_dbg_trace_switch impl otp ch))"
proof
  assume "\<exists>cfg.
        (\<forall>impl nm ch. dbg_trace_isr_enter cfg impl nm ch = Inr ch)
        \<and> (\<forall>impl nm ch. dbg_trace_isr_leave cfg impl nm ch = impl_dbg_trace_isr_leave impl nm ch)
        \<and> (\<forall>impl otp ch. dbg_trace_switch cfg impl otp ch = impl_dbg_trace_switch impl otp ch)"
  then obtain cfg where
    enter: "\<forall>impl nm ch. dbg_trace_isr_enter cfg impl nm ch = Inr ch" and
    leave: "\<forall>impl nm ch. dbg_trace_isr_leave cfg impl nm ch = impl_dbg_trace_isr_leave impl nm ch"
    by blast
  from enter have "dbg_trace_isr_enter cfg chdebug_c_halting [] ch_unlocked = Inr ch_unlocked"
    by blast
  then have bit: "CH_DBG_TRACE_MASK cfg AND CH_DBG_TRACE_MASK_ISR = 0"
    by (simp add: dbg_trace_isr_enter_def chdebug_c_halting_def split: if_splits)
  from leave have "dbg_trace_isr_leave cfg chdebug_c_halting [] ch_unlocked
      = impl_dbg_trace_isr_leave chdebug_c_halting [] ch_unlocked"
    by blast
  with bit show False
    by (simp add: dbg_trace_isr_leave_def chdebug_c_halting_def)
qed

text \<open>
  C3 (amended): the context-switch recorder and the pair of ISR recorders can be
  disabled independently of each other. Under the mask \<^verbatim>\<open>CH_DBG_TRACE_MASK_ISR\<close> the
  switch recorder is a no-op while ISR-enter and ISR-leave both call their functions;
  under \<^verbatim>\<open>CH_DBG_TRACE_MASK_SWITCH\<close> ISR-enter and ISR-leave are both no-ops while
  the switch recorder calls its function; and under every mask ISR-enter and ISR-leave
  are enabled or disabled together.
\<close>

theorem trace_switch_and_isr_pair_independent:
  "(conf_CH_DBG_TRACE_MASK cfg = Some CH_DBG_TRACE_MASK_ISR \<longrightarrow>
      dbg_trace_switch cfg impl otp ch = Inr ch
      \<and> dbg_trace_isr_enter cfg impl nm ch = impl_dbg_trace_isr_enter impl nm ch
      \<and> dbg_trace_isr_leave cfg impl nm ch = impl_dbg_trace_isr_leave impl nm ch)
   \<and> (conf_CH_DBG_TRACE_MASK cfg = Some CH_DBG_TRACE_MASK_SWITCH \<longrightarrow>
      dbg_trace_switch cfg impl otp ch = impl_dbg_trace_switch impl otp ch
      \<and> dbg_trace_isr_enter cfg impl nm ch = Inr ch
      \<and> dbg_trace_isr_leave cfg impl nm ch = Inr ch)
   \<and> (CH_DBG_TRACE_MASK cfg AND CH_DBG_TRACE_MASK_ISR = 0 \<longrightarrow>
      dbg_trace_isr_enter cfg impl nm ch = Inr ch
      \<and> dbg_trace_isr_leave cfg impl nm ch = Inr ch)
   \<and> (CH_DBG_TRACE_MASK cfg AND CH_DBG_TRACE_MASK_ISR \<noteq> 0 \<longrightarrow>
      dbg_trace_isr_enter cfg impl nm ch = impl_dbg_trace_isr_enter impl nm ch
      \<and> dbg_trace_isr_leave cfg impl nm ch = impl_dbg_trace_isr_leave impl nm ch)"
proof -
  have only_isr: "conf_CH_DBG_TRACE_MASK cfg = Some CH_DBG_TRACE_MASK_ISR \<Longrightarrow>
      CH_DBG_TRACE_MASK cfg AND CH_DBG_TRACE_MASK_SWITCH = 0
      \<and> CH_DBG_TRACE_MASK cfg AND CH_DBG_TRACE_MASK_ISR \<noteq> 0"
    by (simp add: CH_DBG_TRACE_MASK_def CH_DBG_TRACE_MASK_ISR_def CH_DBG_TRACE_MASK_SWITCH_def)
  have only_switch: "conf_CH_DBG_TRACE_MASK cfg = Some CH_DBG_TRACE_MASK_SWITCH \<Longrightarrow>
      CH_DBG_TRACE_MASK cfg AND CH_DBG_TRACE_MASK_SWITCH \<noteq> 0
      \<and> CH_DBG_TRACE_MASK cfg AND CH_DBG_TRACE_MASK_ISR = 0"
    by (simp add: CH_DBG_TRACE_MASK_def CH_DBG_TRACE_MASK_ISR_def CH_DBG_TRACE_MASK_SWITCH_def)
  show ?thesis
    using only_isr only_switch
    by (simp add: dbg_trace_switch_def dbg_trace_isr_enter_def dbg_trace_isr_leave_def)
qed

theorem trace_switch_and_isr_pair_independent_witness:
  "conf_CH_DBG_TRACE_MASK (chconf_default\<lparr>conf_CH_DBG_TRACE_MASK := Some CH_DBG_TRACE_MASK_ISR\<rparr>)
     = Some CH_DBG_TRACE_MASK_ISR
   \<and> dbg_trace_switch (chconf_default\<lparr>conf_CH_DBG_TRACE_MASK := Some CH_DBG_TRACE_MASK_ISR\<rparr>)
       chdebug_c_halting 0 ch_unlocked = Inr ch_unlocked
   \<and> dbg_trace_isr_enter (chconf_default\<lparr>conf_CH_DBG_TRACE_MASK := Some CH_DBG_TRACE_MASK_ISR\<rparr>)
       chdebug_c_halting ''Vector6C'' ch_unlocked = Inl (chSysHalt ''enter Vector6C'')
   \<and> dbg_trace_isr_leave (chconf_default\<lparr>conf_CH_DBG_TRACE_MASK := Some CH_DBG_TRACE_MASK_ISR\<rparr>)
       chdebug_c_halting ''Vector6C'' ch_unlocked = Inl (chSysHalt ''leave Vector6C'')
   \<and> conf_CH_DBG_TRACE_MASK (chconf_default\<lparr>conf_CH_DBG_TRACE_MASK := Some CH_DBG_TRACE_MASK_SWITCH\<rparr>)
     = Some CH_DBG_TRACE_MASK_SWITCH
   \<and> dbg_trace_switch (chconf_default\<lparr>conf_CH_DBG_TRACE_MASK := Some CH_DBG_TRACE_MASK_SWITCH\<rparr>)
       chdebug_c_halting 0 ch_unlocked = Inl (chSysHalt ''switch'')
   \<and> dbg_trace_isr_enter (chconf_default\<lparr>conf_CH_DBG_TRACE_MASK := Some CH_DBG_TRACE_MASK_SWITCH\<rparr>)
       chdebug_c_halting ''Vector6C'' ch_unlocked = Inr ch_unlocked
   \<and> dbg_trace_isr_leave (chconf_default\<lparr>conf_CH_DBG_TRACE_MASK := Some CH_DBG_TRACE_MASK_SWITCH\<rparr>)
       chdebug_c_halting ''Vector6C'' ch_unlocked = Inr ch_unlocked"
  using trace_switch_and_isr_pair_independent
          [of "chconf_default\<lparr>conf_CH_DBG_TRACE_MASK := Some CH_DBG_TRACE_MASK_ISR\<rparr>"
              chdebug_c_halting 0 ch_unlocked "''Vector6C''"]
        trace_switch_and_isr_pair_independent
          [of "chconf_default\<lparr>conf_CH_DBG_TRACE_MASK := Some CH_DBG_TRACE_MASK_SWITCH\<rparr>"
              chdebug_c_halting 0 ch_unlocked "''Vector6C''"]
  by (simp add: chdebug_c_halting_def CH_DBG_TRACE_MASK_ISR_def CH_DBG_TRACE_MASK_SWITCH_def)

subsection \<open>Check and assert gate\<close>

text \<open>
  C4: with \<^verbatim>\<open>CH_DBG_ENABLE_CHECKS\<close> enabled, \<^verbatim>\<open>chDbgCheck(c)\<close> requests a halt, and
  the halt carries the name of the enclosing function, if and only if \<open>c\<close> evaluates to
  false (otherwise execution goes on after the evaluation of \<open>c\<close>); with the switch
  disabled the macro has no effect, whatever \<open>c\<close> is: \<open>c\<close> is not even evaluated.
\<close>

theorem chDbgCheck_halts_iff_false:
  "(CH_DBG_ENABLE_CHECKS cfg \<longrightarrow>
      ((chDbgCheck cfg func c s = Inl (chSysHalt func)) = (\<not> fst (c s)))
      \<and> ((\<exists>h. chDbgCheck cfg func c s = Inl h) = (\<not> fst (c s)))
      \<and> (fst (c s) \<longrightarrow> chDbgCheck cfg func c s = Inr (snd (c s))))
   \<and> (\<not> CH_DBG_ENABLE_CHECKS cfg \<longrightarrow> chDbgCheck cfg func c s = Inr s)"
  by (cases "c s") (simp add: chDbgCheck_def)

theorem chDbgCheck_halts_iff_false_witness:
  "CH_DBG_ENABLE_CHECKS chconf_default
   \<and> chDbgCheck chconf_default ''chThdSleep'' (\<lambda>s. (False, s)) ch_unlocked
       = Inl (chSysHalt ''chThdSleep'')
   \<and> chDbgCheck chconf_default ''chThdSleep'' (\<lambda>s. (True, s)) ch_unlocked = Inr ch_unlocked
   \<and> \<not> CH_DBG_ENABLE_CHECKS chconf_release
   \<and> chDbgCheck chconf_release ''chThdSleep'' (\<lambda>s. (False, s)) ch_unlocked = Inr ch_unlocked"
  using chDbgCheck_halts_iff_false [of chconf_default "''chThdSleep''" "\<lambda>s. (False, s)" ch_unlocked]
        chDbgCheck_halts_iff_false [of chconf_default "''chThdSleep''" "\<lambda>s. (True, s)" ch_unlocked]
        chDbgCheck_halts_iff_false [of chconf_release "''chThdSleep''" "\<lambda>s. (False, s)" ch_unlocked]
  by (simp add: chconf_default_def chconf_release_def)

text \<open>
  C5: the outcome of \<^verbatim>\<open>chDbgAssert(c, r)\<close> does not depend on the remark: for every
  configuration, enclosing function, condition and state, any two remarks (expressions
  of any type, with any effect of their own) give the same outcome, so the remark is
  neither evaluated nor stored.
\<close>

theorem chDbgAssert_remark_unused:
  "chDbgAssert cfg func c r1 s = chDbgAssert cfg func c r2 s"
  by (simp add: chDbgAssert_def)

subsection \<open>State checker switched off\<close>

text \<open>
  C6: with \<^verbatim>\<open>CH_DBG_SYSTEM_STATE_CHECK\<close> disabled, every transition and check of the
  state checker (\<open>enter_lock\<close>, \<open>leave_lock\<close>, \<open>check_disable\<close>, \<open>check_suspend\<close>,
  \<open>check_enable\<close>, \<open>check_lock\<close>, \<open>check_unlock\<close>, the two \<open>from_isr\<close> variants,
  \<open>enter_isr\<close>, \<open>leave_isr\<close>, \<^verbatim>\<open>chDbgCheckClassI\<close>, \<^verbatim>\<open>chDbgCheckClassS\<close>) is a
  no-op: it returns with the state it was given and requests no halt, whatever the
  external functions would have done.
\<close>

theorem state_checker_disabled_noop:
  assumes "\<not> CH_DBG_SYSTEM_STATE_CHECK cfg"
  shows "dbg_enter_lock cfg ch = ch
       \<and> dbg_leave_lock cfg ch = ch
       \<and> dbg_check_disable cfg impl ch = Inr ch
       \<and> dbg_check_suspend cfg impl ch = Inr ch
       \<and> dbg_check_enable cfg impl ch = Inr ch
       \<and> dbg_check_lock cfg impl ch = Inr ch
       \<and> dbg_check_unlock cfg impl ch = Inr ch
       \<and> dbg_check_lock_from_isr cfg impl ch = Inr ch
       \<and> dbg_check_unlock_from_isr cfg impl ch = Inr ch
       \<and> dbg_check_enter_isr cfg impl ch = Inr ch
       \<and> dbg_check_leave_isr cfg impl ch = Inr ch
       \<and> chDbgCheckClassI cfg impl ch = Inr ch
       \<and> chDbgCheckClassS cfg impl ch = Inr ch"
proof -
  have locks: "dbg_enter_lock cfg ch = ch" "dbg_leave_lock cfg ch = ch"
    using assms by (simp_all add: dbg_enter_lock_def dbg_leave_lock_def)
  have irq: "dbg_check_disable cfg impl ch = Inr ch" "dbg_check_suspend cfg impl ch = Inr ch"
      "dbg_check_enable cfg impl ch = Inr ch"
    using assms by (simp_all add: dbg_check_disable_def dbg_check_suspend_def dbg_check_enable_def)
  have thd: "dbg_check_lock cfg impl ch = Inr ch" "dbg_check_unlock cfg impl ch = Inr ch"
    using assms by (simp_all add: dbg_check_lock_def dbg_check_unlock_def)
  have from_isr: "dbg_check_lock_from_isr cfg impl ch = Inr ch"
      "dbg_check_unlock_from_isr cfg impl ch = Inr ch"
    using assms by (simp_all add: dbg_check_lock_from_isr_def dbg_check_unlock_from_isr_def)
  have isrs: "dbg_check_enter_isr cfg impl ch = Inr ch" "dbg_check_leave_isr cfg impl ch = Inr ch"
    using assms by (simp_all add: dbg_check_enter_isr_def dbg_check_leave_isr_def)
  have classes: "chDbgCheckClassI cfg impl ch = Inr ch" "chDbgCheckClassS cfg impl ch = Inr ch"
    using assms by (simp_all add: chDbgCheckClassI_def chDbgCheckClassS_def)
  from locks irq thd from_isr isrs classes show ?thesis
    by simp
qed

theorem state_checker_disabled_noop_witness:
  "\<not> CH_DBG_SYSTEM_STATE_CHECK chconf_release
   \<and> dbg_enter_lock chconf_release ch_unlocked = ch_unlocked
   \<and> dbg_leave_lock chconf_release ch_locked = ch_locked
   \<and> dbg_check_disable chconf_release chdebug_c_halting ch_locked = Inr ch_locked
   \<and> dbg_check_suspend chconf_release chdebug_c_halting ch_locked = Inr ch_locked
   \<and> dbg_check_enable chconf_release chdebug_c_halting ch_locked = Inr ch_locked
   \<and> dbg_check_lock chconf_release chdebug_c_halting ch_locked = Inr ch_locked
   \<and> dbg_check_unlock chconf_release chdebug_c_halting ch_unlocked = Inr ch_unlocked
   \<and> dbg_check_enter_isr chconf_release chdebug_c_halting ch_locked = Inr ch_locked
   \<and> dbg_check_leave_isr chconf_release chdebug_c_halting ch_unlocked = Inr ch_unlocked
   \<and> chDbgCheckClassI chconf_release chdebug_c_halting ch_unlocked = Inr ch_unlocked
   \<and> chDbgCheckClassS chconf_release chdebug_c_halting ch_unlocked = Inr ch_unlocked
   \<and> dbg_check_lock chconf_default chdebug_c_halting ch_locked = Inl (chSysHalt ''SV#4'')"
proof -
  have off: "\<not> CH_DBG_SYSTEM_STATE_CHECK chconf_release"
    by (simp add: chconf_release_def)
  have on: "dbg_check_lock chconf_default chdebug_c_halting ch_locked = Inl (chSysHalt ''SV#4'')"
    by (simp add: dbg_check_lock_def chconf_default_def chdebug_c_halting_def)
  show ?thesis
    using off on
      state_checker_disabled_noop [OF off, of ch_unlocked chdebug_c_halting]
      state_checker_disabled_noop [OF off, of ch_locked chdebug_c_halting]
    by simp
qed

subsection \<open>Defaults of the settings\<close>

text \<open>
  C7: when the integrator does not define \<^verbatim>\<open>CH_DBG_TRACE_BUFFER_SIZE\<close>, the trace
  buffer capacity is exactly 128: the setting is 128, and so is the number of entries
  of every buffer of the structure type.
\<close>

theorem trace_buffer_size_default:
  assumes "conf_CH_DBG_TRACE_BUFFER_SIZE cfg = None"
  shows "CH_DBG_TRACE_BUFFER_SIZE cfg = 128
       \<and> (ch_trace_buffer_t_layout cfg tb \<longrightarrow> length (tb_buffer tb) = 128)"
  using assms by (simp add: CH_DBG_TRACE_BUFFER_SIZE_def ch_trace_buffer_t_layout_def)

theorem trace_buffer_size_default_witness:
  "conf_CH_DBG_TRACE_BUFFER_SIZE chconf_default = None
   \<and> CH_DBG_TRACE_BUFFER_SIZE chconf_default = 128
   \<and> ch_trace_buffer_t_layout chconf_default (trace_buffer_unused chconf_default)
   \<and> length (tb_buffer (trace_buffer_unused chconf_default)) = 128
   \<and> CH_DBG_TRACE_BUFFER_SIZE chconf_release = 64"
proof -
  have undefined_size: "conf_CH_DBG_TRACE_BUFFER_SIZE chconf_default = None"
    by (simp add: chconf_default_def)
  have layout: "ch_trace_buffer_t_layout chconf_default (trace_buffer_unused chconf_default)"
    by (simp add: ch_trace_buffer_t_layout_def trace_buffer_unused_def)
  have configured: "CH_DBG_TRACE_BUFFER_SIZE chconf_release = 64"
    by (simp add: CH_DBG_TRACE_BUFFER_SIZE_def chconf_release_def)
  show ?thesis
    using undefined_size layout configured
      trace_buffer_size_default [OF undefined_size, of "trace_buffer_unused chconf_default"]
    by simp
qed

text \<open>
  C9: when the integrator does not define \<^verbatim>\<open>CH_DBG_TRACE_MASK\<close>, the mask is
  \<^verbatim>\<open>CH_DBG_TRACE_MASK_ALL\<close>, the union of the switch bit and the ISR bit, so the
  context-switch recorder and the ISR enter and leave recorders are all compiled in:
  each call reaches its external function.
\<close>

theorem trace_mask_default:
  assumes "conf_CH_DBG_TRACE_MASK cfg = None"
  shows "CH_DBG_TRACE_MASK cfg = CH_DBG_TRACE_MASK_ALL
       \<and> CH_DBG_TRACE_MASK cfg = (CH_DBG_TRACE_MASK_SWITCH OR CH_DBG_TRACE_MASK_ISR)
       \<and> CH_DBG_TRACE_MASK cfg \<noteq> CH_DBG_TRACE_MASK_NONE
       \<and> dbg_trace_switch cfg impl otp ch = impl_dbg_trace_switch impl otp ch
       \<and> dbg_trace_isr_enter cfg impl nm ch = impl_dbg_trace_isr_enter impl nm ch
       \<and> dbg_trace_isr_leave cfg impl nm ch = impl_dbg_trace_isr_leave impl nm ch"
proof -
  have m: "CH_DBG_TRACE_MASK cfg = CH_DBG_TRACE_MASK_ALL"
    using assms by (simp add: CH_DBG_TRACE_MASK_def)
  have bits: "CH_DBG_TRACE_MASK_ALL AND CH_DBG_TRACE_MASK_SWITCH \<noteq> 0"
      "CH_DBG_TRACE_MASK_ALL AND CH_DBG_TRACE_MASK_ISR \<noteq> 0"
      "CH_DBG_TRACE_MASK_ALL \<noteq> CH_DBG_TRACE_MASK_NONE"
    by (simp_all add: CH_DBG_TRACE_MASK_ALL_def CH_DBG_TRACE_MASK_SWITCH_def
        CH_DBG_TRACE_MASK_ISR_def CH_DBG_TRACE_MASK_NONE_def)
  have all: "CH_DBG_TRACE_MASK_ALL = (CH_DBG_TRACE_MASK_SWITCH OR CH_DBG_TRACE_MASK_ISR)"
    by (simp add: CH_DBG_TRACE_MASK_ALL_def)
  show ?thesis
    using bits all
    by (simp add: m dbg_trace_switch_def dbg_trace_isr_enter_def dbg_trace_isr_leave_def)
qed

theorem trace_mask_default_witness:
  "conf_CH_DBG_TRACE_MASK chconf_default = None
   \<and> CH_DBG_TRACE_MASK chconf_default = 3
   \<and> dbg_trace_switch chconf_default chdebug_c_halting 0 ch_unlocked = Inl (chSysHalt ''switch'')
   \<and> dbg_trace_isr_enter chconf_default chdebug_c_halting ''Vector6C'' ch_unlocked
       = Inl (chSysHalt ''enter Vector6C'')
   \<and> dbg_trace_isr_leave chconf_default chdebug_c_halting ''Vector6C'' ch_unlocked
       = Inl (chSysHalt ''leave Vector6C'')"
proof -
  have undefined_mask: "conf_CH_DBG_TRACE_MASK chconf_default = None"
    by (simp add: chconf_default_def)
  show ?thesis
    using undefined_mask
      trace_mask_default [OF undefined_mask, of chdebug_c_halting 0 ch_unlocked "''Vector6C''"]
    by (simp add: chdebug_c_halting_def CH_DBG_TRACE_MASK_ALL_def CH_DBG_TRACE_MASK_SWITCH_def
        CH_DBG_TRACE_MASK_ISR_def)
qed

subsection \<open>Trace records\<close>

text \<open>
  C8: in every event record the fine timestamp lies in \<open>[0, 2^24)\<close> and every value
  of that range can be stored, the kind has 3-bit range and the switched-out state
  5-bit range; the three widths add up to the 32 bits of the one \<^verbatim>\<open>uint32_t\<close> they
  are declared in (where each field lies inside that word is the compiler's choice and
  not part of the statement). The recorder stores a zero fine timestamp when the
  platform has no cycle counter, also in the slot it writes, and the counter sample
  reduced to 24 bits otherwise.
\<close>

theorem trace_event_field_ranges:
  "unat (rtstamp e) < 2 ^ 24
   \<and> unat (type e) < 2 ^ 3
   \<and> unat (state e) < 2 ^ 5
   \<and> (n < 2 ^ 24 \<longrightarrow> unat (rtstamp (e\<lparr>rtstamp := of_nat n\<rparr>)) = n)
   \<and> size (type e) + size (state e) + size (rtstamp e) = LENGTH(32)
   \<and> (\<not> PORT_SUPPORTS_RT p \<longrightarrow>
        rtstamp (make_event p kind st payload) = 0
        \<and> (tb_ptr tb < length (tb_buffer tb) \<longrightarrow>
             rtstamp (tb_buffer (record_event p kind st payload tb) ! tb_ptr tb) = 0))
   \<and> (PORT_SUPPORTS_RT p \<longrightarrow>
        unat (rtstamp (make_event p kind st payload)) = unat (rt_counter p) mod 2 ^ 24)"
proof -
  have r: "unat (rtstamp e) < 2 ^ 24"
    using unsigned_less [of "rtstamp e"] by simp
  have t: "unat (type e) < 2 ^ 3"
    using unsigned_less [of "type e"] by simp
  have s: "unat (state e) < 2 ^ 5"
    using unsigned_less [of "state e"] by simp
  have full: "n < 2 ^ 24 \<Longrightarrow> unat (rtstamp (e\<lparr>rtstamp := of_nat n\<rparr>)) = n"
    by (simp add: unat_of_nat)
  have widths: "size (type e) + size (state e) + size (rtstamp e) = LENGTH(32)"
    by (simp add: word_size)
  have zero: "\<not> PORT_SUPPORTS_RT p \<Longrightarrow> rtstamp (make_event p kind st payload) = 0"
    by (simp add: make_event_def)
  have slot: "tb_ptr tb < length (tb_buffer tb) \<Longrightarrow>
      tb_buffer (record_event p kind st payload tb) ! tb_ptr tb = make_event p kind st payload"
    by (simp add: record_event_def)
  have sample: "PORT_SUPPORTS_RT p \<Longrightarrow>
      unat (rtstamp (make_event p kind st payload)) = unat (rt_counter p) mod 2 ^ 24"
    by (simp add: make_event_def unsigned_ucast_eq take_bit_eq_mod unat_mod_distrib)
  show ?thesis
    using r t s full widths zero slot sample by simp
qed

theorem trace_event_field_ranges_witness:
  "(16777215 :: nat) < 2 ^ 24
   \<and> unat (rtstamp (trace_event_unused\<lparr>rtstamp := of_nat 16777215\<rparr>)) = 16777215
   \<and> \<not> PORT_SUPPORTS_RT port_without_rt
   \<and> rtstamp (make_event port_without_rt CH_TRACE_TYPE_SWITCH 2 (sw 0x20000400 0)) = 0
   \<and> tb_ptr (trace_buffer_unused chconf_default)
       < length (tb_buffer (trace_buffer_unused chconf_default))
   \<and> rtstamp (tb_buffer (record_event port_without_rt CH_TRACE_TYPE_SWITCH 2 (sw 0x20000400 0)
                           (trace_buffer_unused chconf_default))
               ! tb_ptr (trace_buffer_unused chconf_default)) = 0
   \<and> PORT_SUPPORTS_RT port_with_rt
   \<and> unat (rtstamp (make_event port_with_rt CH_TRACE_TYPE_SWITCH 2 (sw 0x20000400 0))) = 0x345678"
proof -
  have in_range: "(16777215 :: nat) < 2 ^ 24"
    by simp
  have no_rt: "\<not> PORT_SUPPORTS_RT port_without_rt"
    by (simp add: port_without_rt_def)
  have cursor: "tb_ptr (trace_buffer_unused chconf_default)
      < length (tb_buffer (trace_buffer_unused chconf_default))"
    by (simp add: trace_buffer_unused_def CH_DBG_TRACE_BUFFER_SIZE_def chconf_default_def)
  have rt: "PORT_SUPPORTS_RT port_with_rt"
    by (simp add: port_with_rt_def)
  have sample: "unat (rt_counter port_with_rt) mod 2 ^ 24 = 0x345678"
    by (simp add: port_with_rt_def)
  show ?thesis
    using in_range no_rt cursor rt sample
      trace_event_field_ranges [of trace_event_unused 16777215 port_without_rt
        CH_TRACE_TYPE_SWITCH 2 "sw 0x20000400 0" "trace_buffer_unused chconf_default"]
      trace_event_field_ranges [of trace_event_unused 16777215 port_with_rt
        CH_TRACE_TYPE_SWITCH 2 "sw 0x20000400 0" "trace_buffer_unused chconf_default"]
    by simp
qed

text \<open>
  C10: the four trace record type constants are 0, 1, 2 and 3, pairwise distinct, each
  below \<open>2^3\<close>, and storing any of them into the \<^verbatim>\<open>type\<close> field of a record and
  reading the field back yields the constant.
\<close>

theorem trace_types_distinct_and_stored_exactly:
  "distinct [CH_TRACE_TYPE_UNUSED, CH_TRACE_TYPE_SWITCH,
             CH_TRACE_TYPE_ISR_ENTER, CH_TRACE_TYPE_ISR_LEAVE]
   \<and> unat CH_TRACE_TYPE_UNUSED = 0 \<and> unat CH_TRACE_TYPE_SWITCH = 1
   \<and> unat CH_TRACE_TYPE_ISR_ENTER = 2 \<and> unat CH_TRACE_TYPE_ISR_LEAVE = 3
   \<and> unat CH_TRACE_TYPE_UNUSED < 2 ^ size (type e)
   \<and> unat CH_TRACE_TYPE_SWITCH < 2 ^ size (type e)
   \<and> unat CH_TRACE_TYPE_ISR_ENTER < 2 ^ size (type e)
   \<and> unat CH_TRACE_TYPE_ISR_LEAVE < 2 ^ size (type e)
   \<and> load_type (store_type CH_TRACE_TYPE_UNUSED e) = CH_TRACE_TYPE_UNUSED
   \<and> load_type (store_type CH_TRACE_TYPE_SWITCH e) = CH_TRACE_TYPE_SWITCH
   \<and> load_type (store_type CH_TRACE_TYPE_ISR_ENTER e) = CH_TRACE_TYPE_ISR_ENTER
   \<and> load_type (store_type CH_TRACE_TYPE_ISR_LEAVE e) = CH_TRACE_TYPE_ISR_LEAVE"
proof -
  have kinds: "CH_TRACE_TYPE_UNUSED = 0" "CH_TRACE_TYPE_SWITCH = 1"
      "CH_TRACE_TYPE_ISR_ENTER = 2" "CH_TRACE_TYPE_ISR_LEAVE = 3"
    by (simp_all add: CH_TRACE_TYPE_UNUSED_def CH_TRACE_TYPE_SWITCH_def
        CH_TRACE_TYPE_ISR_ENTER_def CH_TRACE_TYPE_ISR_LEAVE_def)
  have width: "size (type e) = 3"
    by (simp add: word_size)
  show ?thesis
    unfolding kinds width by (simp add: load_type_def store_type_def)
qed

end
